theory Spec2Isabelle
  imports Main "HOL-Library.Word"
begin

section \<open>Data model\<close>

text \<open>
  The nested record shape of \<^verbatim>\<open>src/src/constants.ts\<close> (interface \<^verbatim>\<open>Motorcycle\<close>), as
  it arrives in a request body: the server reads the body as \<^verbatim>\<open>any\<close>, and the client
  sends a \<^verbatim>\<open>Partial<Motorcycle>\<close>, so every field may be missing. A field is
  \<open>None\<close> when the property is absent (\<^verbatim>\<open>undefined\<close>) or \<^verbatim>\<open>null\<close>; the database
  driver binds both as SQL NULL. Field values have the types the interface declares:
  strings, and an integral number for \<^verbatim>\<open>year\<close>. \<^verbatim>\<open>category\<close> is a plain string at run
  time; nothing on the server enforces the four brand names.

  The fields \<^verbatim>\<open>id\<close>, \<^verbatim>\<open>image\<close> and \<^verbatim>\<open>power\<close> carry a prime, since HOL has constants
  of these names.
\<close>

record specs =
  engine :: "string option"
  power' :: "string option"
  torque :: "string option"
  weight :: "string option"
  topSpeed :: "string option"

record motorcycle =
  id' :: "string option"
  name :: "string option"
  category :: "string option"
  image' :: "string option"
  specs :: "specs option"
  modifications :: "string option"
  description :: "string option"
  year :: "int option"

text \<open>
  A row of table \<^verbatim>\<open>motorcycles\<close> (\<^verbatim>\<open>CREATE TABLE\<close>, server.ts lines 39-55). Every column
  is nullable in the representation; the \<^verbatim>\<open>NOT NULL\<close> and \<^verbatim>\<open>PRIMARY KEY\<close> constraints
  are checked by the statements below. \<^verbatim>\<open>created_at\<close> is the clock reading in seconds
  (\<^verbatim>\<open>CURRENT_TIMESTAMP\<close> has a resolution of one second).
\<close>

type_synonym timestamp = nat

record row =
  col_id :: "string option"
  col_name :: "string option"
  col_category :: "string option"
  col_year :: "int option"
  col_description :: "string option"
  col_modifications :: "string option"
  col_image :: "string option"
  col_engine :: "string option"
  col_power :: "string option"
  col_torque :: "string option"
  col_weight :: "string option"
  col_topSpeed :: "string option"
  col_created_at :: timestamp

text \<open>The table: its rows in scan order (oldest insertion first).\<close>

type_synonym db = "row list"

datatype sqlite_error = SQLITE_CONSTRAINT_NOTNULL | SQLITE_CONSTRAINT_PRIMARYKEY

datatype js_error = TypeError | SqliteError sqlite_error | WriteError

datatype body =
    Motorcycles "motorcycle list"
  | Echo motorcycle
  | Error string
  | ImageUrl string
  | Success
  | NoContent

record response =
  status :: nat
  payload :: body

section \<open>Record store\<close>

subsection \<open>The SQL statements\<close>

text \<open>
  \<^verbatim>\<open>INSERT INTO motorcycles (...) VALUES (?, ..., ?)\<close>. SQLite checks the \<^verbatim>\<open>NOT NULL\<close>
  columns first and the uniqueness of the key after them. A \<^verbatim>\<open>TEXT PRIMARY KEY\<close>
  column of an ordinary table accepts NULL, and NULL keys never collide. A failing
  statement leaves the table as it was.
\<close>

definition has_id :: "db \<Rightarrow> string \<Rightarrow> bool" where
  "has_id d x = (\<exists>r \<in> set d. col_id r = Some x)"

definition sql_insert :: "db \<Rightarrow> row \<Rightarrow> sqlite_error + db" where
  "sql_insert d r =
     (if col_name r = None \<or> col_category r = None \<or> col_year r = None
      then Inl SQLITE_CONSTRAINT_NOTNULL
      else case col_id r of
        None \<Rightarrow> Inr (d @ [r])
      | Some x \<Rightarrow> if has_id d x then Inl SQLITE_CONSTRAINT_PRIMARYKEY else Inr (d @ [r]))"

text \<open>
  \<^verbatim>\<open>UPDATE motorcycles SET name = ?, ..., topSpeed = ? WHERE id = ?\<close>. The eleven values
  are carried in a row whose key and timestamp are ignored. The constraints are checked on
  the rows the statement touches only; the result carries the number of changed rows.
\<close>

definition set_columns :: "row \<Rightarrow> row \<Rightarrow> row" where
  "set_columns v r = r\<lparr>col_name := col_name v, col_category := col_category v,
     col_year := col_year v, col_description := col_description v,
     col_modifications := col_modifications v, col_image := col_image v,
     col_engine := col_engine v, col_power := col_power v, col_torque := col_torque v,
     col_weight := col_weight v, col_topSpeed := col_topSpeed v\<rparr>"

definition sql_update :: "db \<Rightarrow> row \<Rightarrow> string \<Rightarrow> sqlite_error + (db \<times> nat)" where
  "sql_update d v x =
     (if has_id d x \<and> (col_name v = None \<or> col_category v = None \<or> col_year v = None)
      then Inl SQLITE_CONSTRAINT_NOTNULL
      else Inr (map (\<lambda>r. if col_id r = Some x then set_columns v r else r) d,
                length (filter (\<lambda>r. col_id r = Some x) d)))"

text \<open>\<^verbatim>\<open>DELETE FROM motorcycles WHERE id = ?\<close>, with the number of deleted rows.\<close>

definition sql_delete :: "db \<Rightarrow> string \<Rightarrow> db \<times> nat" where
  "sql_delete d x =
     (filter (\<lambda>r. col_id r \<noteq> Some x) d, length (filter (\<lambda>r. col_id r = Some x) d))"

text \<open>
  \<^verbatim>\<open>SELECT * FROM motorcycles ORDER BY created_at DESC\<close>. Rows of equal timestamp are kept
  in scan order here; SQLite promises no order among them, and no statement below depends
  on it.
\<close>

definition sql_select_all :: "db \<Rightarrow> row list" where
  "sql_select_all d = sort_key (\<lambda>r. - int (col_created_at r)) d"

subsection \<open>The handlers\<close>

text \<open>
  The arguments of \<^verbatim>\<open>stmt.run\<close> (server.ts lines 130-143 and 160-172): the flat row of a
  nested record. Reading \<^verbatim>\<open>bike.specs.engine\<close> throws a TypeError when \<^verbatim>\<open>bike.specs\<close> is
  absent or null, before the statement runs.
\<close>

definition flatten :: "motorcycle \<Rightarrow> string option \<Rightarrow> timestamp \<Rightarrow> js_error + row" where
  "flatten bike key now =
     (case specs bike of
        None \<Rightarrow> Inl TypeError
      | Some s \<Rightarrow> Inr \<lparr>col_id = key, col_name = name bike, col_category = category bike,
          col_year = year bike, col_description = description bike,
          col_modifications = modifications bike, col_image = image' bike,
          col_engine = engine s, col_power = power' s, col_torque = torque s,
          col_weight = weight s, col_topSpeed = topSpeed s, col_created_at = now\<rparr>)"

text \<open>\<^verbatim>\<open>formattedBikes\<close> (server.ts lines 101-116): the nested record of a flat row.\<close>

definition unflatten :: "row \<Rightarrow> motorcycle" where
  "unflatten bike = \<lparr>id' = col_id bike, name = col_name bike, category = col_category bike,
     image' = col_image bike,
     specs = Some \<lparr>engine = col_engine bike, power' = col_power bike,
       torque = col_torque bike, weight = col_weight bike, topSpeed = col_topSpeed bike\<rparr>,
     modifications = col_modifications bike, description = col_description bike,
     year = col_year bike\<rparr>"

text \<open>
  \<^verbatim>\<open>GET /api/motorcycles\<close>. Its \<^verbatim>\<open>catch\<close> branch, like the ones of the two delete routes,
  answers a failure of the database itself (file unreadable, disk error); the table here
  has no such failure, so these branches are never taken.
\<close>

definition formattedBikes :: "db \<Rightarrow> motorcycle list" where
  "formattedBikes d = map unflatten (sql_select_all d)"

definition get_motorcycles :: "db \<Rightarrow> response" where
  "get_motorcycles d = \<lparr>status = 200, payload = Motorcycles (formattedBikes d)\<rparr>"

text \<open>
  \<^verbatim>\<open>POST /api/motorcycles\<close>: the body of the \<^verbatim>\<open>try\<close> block, then the handler with its
  \<^verbatim>\<open>catch\<close>. \<open>now\<close> is the clock of the database at the insert.
\<close>

definition create_try :: "timestamp \<Rightarrow> db \<Rightarrow> motorcycle \<Rightarrow> js_error + (db \<times> response)" where
  "create_try now d bike =
     (case flatten bike (id' bike) now of
        Inl e \<Rightarrow> Inl e
      | Inr r \<Rightarrow>
          (case sql_insert d r of
             Inl e \<Rightarrow> Inl (SqliteError e)
           | Inr d' \<Rightarrow> Inr (d', \<lparr>status = 201, payload = Echo bike\<rparr>)))"

definition post_motorcycles :: "timestamp \<Rightarrow> db \<Rightarrow> motorcycle \<Rightarrow> db \<times> response" where
  "post_motorcycles now d bike =
     (case create_try now d bike of
        Inl e \<Rightarrow> (d, \<lparr>status = 500, payload = Error ''Failed to add motorcycle''\<rparr>)
      | Inr res \<Rightarrow> res)"

text \<open>
  \<^verbatim>\<open>PUT /api/motorcycles/:id\<close>. The handler does not look at the number of changed rows.
\<close>

definition update_try :: "db \<Rightarrow> string \<Rightarrow> motorcycle \<Rightarrow> js_error + (db \<times> response)" where
  "update_try d x bike =
     (case flatten bike None 0 of
        Inl e \<Rightarrow> Inl e
      | Inr v \<Rightarrow>
          (case sql_update d v x of
             Inl e \<Rightarrow> Inl (SqliteError e)
           | Inr (d', changes) \<Rightarrow> Inr (d', \<lparr>status = 200, payload = Echo bike\<rparr>)))"

definition put_motorcycles :: "db \<Rightarrow> string \<Rightarrow> motorcycle \<Rightarrow> db \<times> response" where
  "put_motorcycles d x bike =
     (case update_try d x bike of
        Inl e \<Rightarrow> (d, \<lparr>status = 500, payload = Error ''Failed to update motorcycle''\<rparr>)
      | Inr res \<Rightarrow> res)"

text \<open>
  \<^verbatim>\<open>POST /api/motorcycles/:id/delete\<close> and \<^verbatim>\<open>DELETE /api/motorcycles/:id\<close>. The first
  one also reads all keys, for its log only.
\<close>

definition post_motorcycles_delete :: "db \<Rightarrow> string \<Rightarrow> db \<times> response" where
  "post_motorcycles_delete d x =
     (let allIds = map col_id d;
          (d', changes) = sql_delete d x
      in if changes > 0 then (d', \<lparr>status = 200, payload = Success\<rparr>)
         else (d', \<lparr>status = 404,
                 payload = Error (''Motorcycle with ID '' @ x @ '' not found'')\<rparr>))"

definition delete_motorcycles :: "db \<Rightarrow> string \<Rightarrow> db \<times> response" where
  "delete_motorcycles d x =
     (let (d', changes) = sql_delete d x
      in if changes > 0 then (d', \<lparr>status = 204, payload = NoContent\<rparr>)
         else (d', \<lparr>status = 404, payload = Error ''Motorcycle not found''\<rparr>))"

text \<open>
  The key constraint as a property of the table: no two rows share a non-null key. It
  holds of the empty table and every handler keeps it.
\<close>

definition unique_ids :: "db \<Rightarrow> bool" where
  "unique_ids d = distinct (filter (\<lambda>k. k \<noteq> None) (map col_id d))"

section \<open>Image ingestion\<close>

subsection \<open>Library functions the handler calls\<close>

text \<open>A number in a string concatenation: its decimal digits.\<close>

fun to_string :: "nat \<Rightarrow> string" where
  "to_string n =
     (if n < 10 then [''0123456789'' ! n]
      else to_string (n div 10) @ [''0123456789'' ! (n mod 10)])"

declare to_string.simps [simp del]

text \<open>
  \<^verbatim>\<open>image.replace(/^data:image\/\w+;base64,/, "")\<close>: the header is removed when the string
  starts with \<^verbatim>\<open>data:image/\<close>, one or more word characters and \<^verbatim>\<open>;base64,\<close>; any other
  string is returned as it is.
\<close>

fun strip_prefix :: "string \<Rightarrow> string \<Rightarrow> string option" where
  "strip_prefix [] ys = Some ys"
| "strip_prefix (x # xs) [] = None"
| "strip_prefix (x # xs) (y # ys) = (if x = y then strip_prefix xs ys else None)"

definition is_word :: "char \<Rightarrow> bool" where
  "is_word c =
     (c \<in> set ''abcdefghijklmnopqrstuvwxyzABCDEFGHIJKLMNOPQRSTUVWXYZ0123456789_'')"

definition strip_header :: "string \<Rightarrow> string" where
  "strip_header img =
     (case strip_prefix ''data:image/'' img of
        None \<Rightarrow> img
      | Some rest \<Rightarrow>
          if takeWhile is_word rest = [] then img
          else (case strip_prefix '';base64,'' (dropWhile is_word rest) of
                  None \<Rightarrow> img
                | Some data \<Rightarrow> data))"

text \<open>
  \<^verbatim>\<open>Buffer.from(base64Data, 'base64')\<close>. Node's decoder never throws: it stops at the first
  \<^verbatim>\<open>=\<close>, skips every character outside the alphabet (the URL-safe \<^verbatim>\<open>-\<close> and \<^verbatim>\<open>_\<close> count
  as \<^verbatim>\<open>+\<close> and \<^verbatim>\<open>/\<close>), and turns each group of four sextets into three bytes; a final
  group of two or three sextets gives one or two bytes, a single left-over sextet none.
\<close>

type_synonym byte = "8 word"

fun index_of :: "string \<Rightarrow> char \<Rightarrow> nat option" where
  "index_of [] c = None"
| "index_of (x # xs) c = (if x = c then Some 0 else map_option Suc (index_of xs c))"

definition unbase64 :: "char \<Rightarrow> nat option" where
  "unbase64 c =
     (if c = CHR ''-'' then Some 62 else if c = CHR ''_'' then Some 63
      else index_of ''ABCDEFGHIJKLMNOPQRSTUVWXYZabcdefghijklmnopqrstuvwxyz0123456789+/'' c)"

fun sextet_bytes :: "nat list \<Rightarrow> byte list" where
  "sextet_bytes (a # b # c # d # rest) =
     [of_nat (a * 4 + b div 16), of_nat ((b mod 16) * 16 + c div 4),
      of_nat ((c mod 4) * 64 + d)] @ sextet_bytes rest"
| "sextet_bytes [a, b, c] = [of_nat (a * 4 + b div 16), of_nat ((b mod 16) * 16 + c div 4)]"
| "sextet_bytes [a, b] = [of_nat (a * 4 + b div 16)]"
| "sextet_bytes _ = []"

definition Buffer_from_base64 :: "string \<Rightarrow> byte list" where
  "Buffer_from_base64 s =
     sextet_bytes (List.map_filter unbase64 (takeWhile (\<lambda>c. c \<noteq> CHR ''='') s))"

text \<open>
  \<^verbatim>\<open>path.extname\<close> (POSIX): one pass from the end of the string over the last path
  component, which records the last dot, the end of the component and whether anything
  but dots stands before that dot. \<open>extname_loop path n st\<close> runs the iterations
  \<open>i = n - 1, ..., 0\<close>.
\<close>

record ext_state =
  startDot :: int
  startPart :: int
  end' :: int
  matchedSlash :: bool
  preDotState :: int

fun extname_loop :: "string \<Rightarrow> nat \<Rightarrow> ext_state \<Rightarrow> ext_state" where
  "extname_loop path 0 st = st"
| "extname_loop path (Suc i) st =
     (let code = path ! i in
      if code = CHR ''/'' then
        (if \<not> matchedSlash st then st\<lparr>startPart := int i + 1\<rparr>
         else extname_loop path i st)
      else
        (let st1 = (if end' st = - 1 then st\<lparr>end' := int i + 1, matchedSlash := False\<rparr>
                    else st);
             st2 = (if code = CHR ''.'' then
                      (if startDot st1 = - 1 then st1\<lparr>startDot := int i\<rparr>
                       else if preDotState st1 \<noteq> 1 then st1\<lparr>preDotState := 1\<rparr>
                       else st1)
                    else if startDot st1 \<noteq> - 1 then st1\<lparr>preDotState := - 1\<rparr>
                    else st1)
         in extname_loop path i st2))"

definition extname :: "string \<Rightarrow> string" where
  "extname path =
     (let st = extname_loop path (length path)
                 \<lparr>startDot = - 1, startPart = 0, end' = - 1, matchedSlash = True,
                  preDotState = 0\<rparr>
      in if startDot st = - 1 \<or> end' st = - 1 \<or> preDotState st = 0 \<or>
            (preDotState st = 1 \<and> startDot st = end' st - 1 \<and>
             startDot st = startPart st + 1)
         then []
         else take (nat (end' st - startDot st)) (drop (nat (startDot st)) path))"

subsection \<open>The upload handler\<close>

text \<open>
  What a request reads from its surroundings: the clock \<^verbatim>\<open>Date.now()\<close>, the value of
  \<^verbatim>\<open>Math.round(Math.random() * 1E9)\<close>, and whether \<^verbatim>\<open>fs.writeFileSync\<close> throws (disk
  full, missing directory, a file name the file system refuses). The uploads directory
  maps file names to contents; a write that throws leaves it as it was.
\<close>

record env =
  date_now :: nat
  math_random :: nat
  write_fails :: bool

type_synonym uploads = "string \<rightharpoonup> byte list"

definition writeFileSync :: "env \<Rightarrow> uploads \<Rightarrow> string \<Rightarrow> byte list \<Rightarrow> js_error + uploads" where
  "writeFileSync e fs fname buffer =
     (if write_fails e then Inl WriteError else Inr (fs(fname \<mapsto> buffer)))"

definition newFileName :: "env \<Rightarrow> string \<Rightarrow> string" where
  "newFileName e fileName =
     (let fileExt = (if extname fileName = [] then ''.jpg'' else extname fileName);
          uniqueSuffix = to_string (date_now e) @ ''-'' @ to_string (math_random e)
      in uniqueSuffix @ fileExt)"

definition upload_try :: "env \<Rightarrow> uploads \<Rightarrow> string \<Rightarrow> string \<Rightarrow> js_error + (uploads \<times> response)" where
  "upload_try e fs img fileName =
     (let base64Data = strip_header img;
          buffer = Buffer_from_base64 base64Data
      in case writeFileSync e fs (newFileName e fileName) buffer of
           Inl err \<Rightarrow> Inl err
         | Inr fs' \<Rightarrow>
             Inr (fs', \<lparr>status = 200,
                        payload = ImageUrl (''/uploads/'' @ newFileName e fileName)\<rparr>))"

text \<open>
  \<^verbatim>\<open>POST /api/upload\<close> (server.ts lines 68-95). The two body fields are strings or missing
  (\<open>None\<close>); \<^verbatim>\<open>!image\<close> holds of a missing and of an empty string.
\<close>

definition post_upload :: "env \<Rightarrow> uploads \<Rightarrow> string option \<Rightarrow> string option \<Rightarrow> uploads \<times> response" where
  "post_upload e fs img fileName =
     (case (img, fileName) of
        (Some i, Some f) \<Rightarrow>
          if i = [] \<or> f = []
          then (fs, \<lparr>status = 400, payload = Error ''Missing image data or file name''\<rparr>)
          else (case upload_try e fs i f of
                  Inl err \<Rightarrow>
                    (fs, \<lparr>status = 500, payload = Error ''Failed to save uploaded image''\<rparr>)
                | Inr res \<Rightarrow> res)
      | _ \<Rightarrow> (fs, \<lparr>status = 400, payload = Error ''Missing image data or file name''\<rparr>))"

text \<open>
  The route behind \<^verbatim>\<open>express.json({ limit: '10mb' })\<close> (server.ts line 61): a request
  body of more than \<open>10 * 1024 * 1024\<close> bytes never reaches the handler; the parser's
  error goes to the error handler (lines 221-226), which answers with the error's
  status, 413. \<open>content_length\<close> is the size of the JSON text of the request in bytes.
\<close>

definition json_limit :: nat where
  "json_limit = 10 * 1024 * 1024"

definition api_upload ::
    "env \<Rightarrow> uploads \<Rightarrow> nat \<Rightarrow> string option \<Rightarrow> string option \<Rightarrow> uploads \<times> response" where
  "api_upload e fs content_length img fileName =
     (if content_length > json_limit
      then (fs, \<lparr>status = 413, payload = Error ''request entity too large''\<rparr>)
      else post_upload e fs img fileName)"

text \<open>
  The client's own gate in \<^verbatim>\<open>handleFileUpload\<close> (App component, "Check file size (5MB
  limit)"): a chosen file of more than \<open>5 * 1024 * 1024\<close> bytes is refused before any
  request is made.
\<close>

definition client_sends_file :: "nat \<Rightarrow> bool" where
  "client_sends_file file_size = (\<not> file_size > 5 * 1024 * 1024)"

section \<open>Valid records and sample values\<close>

text \<open>
  A valid record has every field of the interface \<^verbatim>\<open>Motorcycle\<close>: the key, the scalar
  fields, and a \<^verbatim>\<open>specs\<close> object with its five strings.
\<close>

definition valid_record :: "motorcycle \<Rightarrow> bool" where
  "valid_record r =
     (id' r \<noteq> None \<and> name r \<noteq> None \<and> category r \<noteq> None \<and> year r \<noteq> None \<and>
      description r \<noteq> None \<and> modifications r \<noteq> None \<and> image' r \<noteq> None \<and>
      (case specs r of
         None \<Rightarrow> False
       | Some s \<Rightarrow> engine s \<noteq> None \<and> power' s \<noteq> None \<and> torque s \<noteq> None \<and>
                   weight s \<noteq> None \<and> topSpeed s \<noteq> None))"

text \<open>Sample values: a complete record, a sparse one, and the row of the first.\<close>

definition bike1 :: motorcycle where
  "bike1 = \<lparr>id' = Some ''rx1'', name = Some ''RX King'', category = Some ''Yamaha'',
     image' = Some ''/uploads/5-7.jpg'',
     specs = Some \<lparr>engine = Some ''135cc'', power' = Some ''18 HP'', torque = Some ''15 Nm'',
       weight = Some ''100 kg'', topSpeed = Some ''140''\<rparr>,
     modifications = Some ''seat, exhaust'', description = Some ''two-stroke'',
     year = Some 2004\<rparr>"

definition bike2 :: motorcycle where
  "bike2 = \<lparr>id' = None, name = Some ''Vespa'', category = Some ''Piaggio'', image' = None,
     specs = Some \<lparr>engine = None, power' = Some ''9 HP'', torque = None, weight = None,
       topSpeed = None\<rparr>,
     modifications = None, description = None, year = Some 1998\<rparr>"

definition row1 :: row where
  "row1 = \<lparr>col_id = Some ''rx1'', col_name = Some ''RX King'', col_category = Some ''Yamaha'',
     col_year = Some 2004, col_description = Some ''two-stroke'',
     col_modifications = Some ''seat, exhaust'', col_image = Some ''/uploads/5-7.jpg'',
     col_engine = Some ''135cc'', col_power = Some ''18 HP'', col_torque = Some ''15 Nm'',
     col_weight = Some ''100 kg'', col_topSpeed = Some ''140'', col_created_at = 7\<rparr>"

definition env0 :: env where
  "env0 = \<lparr>date_now = 5, math_random = 7, write_fails = False\<rparr>"


section \<open>Properties of the record store\<close>

subsection \<open>Helper lemmas\<close>

lemma id_unflatten [simp]: "id' (unflatten r) = col_id r"
  by (simp add: unflatten_def)

lemma filter_formattedBikes:
  "filter (\<lambda>b. id' b = k) (formattedBikes d) =
     map unflatten (sort_key (\<lambda>r. - int (col_created_at r)) (filter (\<lambda>r. col_id r = k) d))"
  by (simp add: formattedBikes_def sql_select_all_def filter_map o_def filter_sort)

lemma no_id_filter: "\<not> has_id d x \<Longrightarrow> filter (\<lambda>r. col_id r = Some x) d = []"
  by (auto simp: has_id_def filter_empty_conv)

lemma unflatten_flatten:
  "flatten r k now = Inr f \<Longrightarrow> unflatten f = r\<lparr>id' := k\<rparr>"
  by (auto simp: flatten_def unflatten_def split: option.splits)

lemma create_try_Inr:
  "create_try now d r = Inr (d', res) \<Longrightarrow>
     \<exists>f. flatten r (id' r) now = Inr f \<and> sql_insert d f = Inr d' \<and> res = \<lparr>status = 201, payload = Echo r\<rparr>"
  by (auto simp: create_try_def split: sum.splits)

lemma sql_insert_Inr:
  "sql_insert d f = Inr d' \<Longrightarrow> d' = d @ [f] \<and> (\<forall>x. col_id f = Some x \<longrightarrow> \<not> has_id d x)"
  by (auto simp: sql_insert_def split: if_splits option.splits)

lemma post_201:
  assumes "post_motorcycles now d r = (d', res)" "status res = 201"
  shows "\<exists>f. flatten r (id' r) now = Inr f \<and> d' = d @ [f] \<and> (\<forall>x. id' r = Some x \<longrightarrow> \<not> has_id d x) \<and> res = \<lparr>status = 201, payload = Echo r\<rparr>"
proof -
  from assms have "create_try now d r = Inr (d', res)"
    by (auto simp: post_motorcycles_def split: sum.splits)
  then obtain f where f: "flatten r (id' r) now = Inr f" "sql_insert d f = Inr d'"
      "res = \<lparr>status = 201, payload = Echo r\<rparr>"
    using create_try_Inr by blast
  moreover have "col_id f = id' r" using f(1) by (auto simp: flatten_def split: option.splits)
  ultimately show ?thesis using sql_insert_Inr[OF f(2)] by auto
qed

lemma valid_create:
  assumes "valid_record r" "id' r = Some x" "\<not> has_id d x"
  shows "\<exists>f. flatten r (id' r) now = Inr f \<and> post_motorcycles now d r = (d @ [f], \<lparr>status = 201, payload = Echo r\<rparr>)"
  using assms
  by (auto simp: valid_record_def post_motorcycles_def create_try_def flatten_def sql_insert_def split: option.splits)

lemma unique_ids_Nil: "unique_ids []"
  by (simp add: unique_ids_def)

lemma has_id_image: "(Some x \<in> col_id ` set d) = has_id d x"
  by (force simp: has_id_def image_iff)

lemma unique_ids_snoc:
  "unique_ids (d @ [r]) = (unique_ids d \<and> (\<forall>x. col_id r = Some x \<longrightarrow> \<not> has_id d x))"
  by (cases "col_id r") (simp_all add: unique_ids_def has_id_image)

lemma unique_ids_Cons:
  "unique_ids (a # d) = (unique_ids d \<and> (\<forall>x. col_id a = Some x \<longrightarrow> \<not> has_id d x))"
  by (cases "col_id a") (auto simp: unique_ids_def has_id_image)

lemma has_id_filter: "has_id (filter P d) x \<Longrightarrow> has_id d x"
  by (auto simp: has_id_def)

lemma col_id_set_columns [simp]: "col_id (set_columns v r) = col_id r"
  by (simp add: set_columns_def)

lemma col_created_at_set_columns [simp]: "col_created_at (set_columns v r) = col_created_at r"
  by (simp add: set_columns_def)

lemma put_cases:
  "put_motorcycles d x bike = (d, \<lparr>status = 500, payload = Error ''Failed to update motorcycle''\<rparr>) \<or>
   (\<exists>v. flatten bike None 0 = Inr v \<and>
        put_motorcycles d x bike =
          (map (\<lambda>r. if col_id r = Some x then set_columns v r else r) d,
           \<lparr>status = 200, payload = Echo bike\<rparr>))"
  by (auto simp: put_motorcycles_def update_try_def sql_update_def split: sum.splits)

lemma map_col_id_update:
  "map col_id (map (\<lambda>r. if col_id r = Some x then set_columns v r else r) d) = map col_id d"
  by (induction d) auto

lemma map_created_at_update:
  "map col_created_at (map (\<lambda>r. if col_id r = Some x then set_columns v r else r) d) =
     map col_created_at d"
  by (induction d) auto

lemma filter_other_update:
  "filter (\<lambda>r. col_id r \<noteq> Some x) (map (\<lambda>r. if col_id r = Some x then set_columns v r else r) d) =
     filter (\<lambda>r. col_id r \<noteq> Some x) d"
  by (induction d) auto

lemma filter_same_update:
  "filter (\<lambda>r. col_id r = Some x) (map (\<lambda>r. if col_id r = Some x then set_columns v r else r) d) =
     map (set_columns v) (filter (\<lambda>r. col_id r = Some x) d)"
  by (induction d) auto

lemma unique_ids_post: "unique_ids d \<Longrightarrow> unique_ids (fst (post_motorcycles now d bike))"
  by (auto simp: post_motorcycles_def create_try_def sql_insert_def flatten_def unique_ids_snoc
      split: sum.splits option.splits if_splits)

lemma unique_ids_put:
  assumes "unique_ids d"
  shows "unique_ids (fst (put_motorcycles d x bike))"
proof -
  have "map col_id (fst (put_motorcycles d x bike)) = map col_id d"
    using put_cases[of d x bike] by (auto simp: map_col_id_update)
  with assms show ?thesis by (simp add: unique_ids_def)
qed

lemma unique_ids_filter: "unique_ids d \<Longrightarrow> unique_ids (filter P d)"
  by (induction d) (auto simp: unique_ids_Cons unique_ids_Nil dest: has_id_filter)

lemma delete_cases:
  "delete_motorcycles d x =
     (filter (\<lambda>r. col_id r \<noteq> Some x) d,
      if has_id d x then \<lparr>status = 204, payload = NoContent\<rparr>
      else \<lparr>status = 404, payload = Error ''Motorcycle not found''\<rparr>)"
  by (auto simp: delete_motorcycles_def sql_delete_def has_id_def filter_empty_conv)

lemma post_delete_cases:
  "post_motorcycles_delete d x =
     (filter (\<lambda>r. col_id r \<noteq> Some x) d,
      if has_id d x then \<lparr>status = 200, payload = Success\<rparr>
      else \<lparr>status = 404, payload = Error (''Motorcycle with ID '' @ x @ '' not found'')\<rparr>)"
  by (auto simp: post_motorcycles_delete_def sql_delete_def has_id_def filter_empty_conv Let_def)

lemma filter_absent: "\<not> has_id d x \<Longrightarrow> filter (\<lambda>r. col_id r \<noteq> Some x) d = d"
  by (auto simp: has_id_def filter_id_conv)

lemma unique_ids_delete: "unique_ids d \<Longrightarrow> unique_ids (fst (delete_motorcycles d x))"
  by (simp add: delete_cases unique_ids_filter)

lemma unique_ids_post_delete: "unique_ids d \<Longrightarrow> unique_ids (fst (post_motorcycles_delete d x))"
  by (simp add: post_delete_cases unique_ids_filter)

lemma filter_remove1:
  "unique_ids d \<Longrightarrow> r \<in> set d \<Longrightarrow> col_id r = Some x \<Longrightarrow>
     filter (\<lambda>r. col_id r \<noteq> Some x) d = remove1 r d"
proof (induction d)
  case Nil
  then show ?case by simp
next
  case (Cons a d)
  show ?case
  proof (cases "a = r")
    case True
    with Cons.prems have "\<not> has_id d x" by (simp add: unique_ids_Cons)
    with True Cons.prems show ?thesis by (simp add: filter_absent)
  next
    case False
    with Cons.prems have rd: "r \<in> set d" by simp
    with Cons.prems have "has_id d x" by (auto simp: has_id_def)
    with Cons.prems have "col_id a \<noteq> Some x" by (auto simp: unique_ids_Cons)
    moreover have "unique_ids d" using Cons.prems by (simp add: unique_ids_Cons)
    ultimately show ?thesis using Cons.IH rd Cons.prems False by simp
  qed
qed

lemma put_200:
  assumes "put_motorcycles d x bike = (d', res)" "status res = 200"
  shows "\<exists>v. flatten bike None 0 = Inr v \<and>
           d' = map (\<lambda>r. if col_id r = Some x then set_columns v r else r) d"
  using put_cases[of d x bike] assms by auto

lemma unflatten_set_columns:
  "flatten bike k t = Inr v \<Longrightarrow> unflatten (set_columns v r) = bike\<lparr>id' := col_id r\<rparr>"
  by (auto simp: flatten_def unflatten_def set_columns_def split: option.splits)

lemma post_bike1: "post_motorcycles 7 [] bike1 = ([row1], \<lparr>status = 201, payload = Echo bike1\<rparr>)"
  by (simp add: post_motorcycles_def create_try_def flatten_def sql_insert_def has_id_def
      bike1_def row1_def)

lemma col_id_row1: "col_id row1 = Some ''rx1''"
  by (simp add: row1_def)

lemma has_id_row1: "has_id [row1] x = (x = ''rx1'')"
  by (auto simp: has_id_def row1_def)

subsection \<open>Round trip\<close>

text \<open>
  C1. A valid record \<open>r\<close> whose key is not in the table yet is flattened into a row whose
  nested form is \<open>r\<close> again; the create answers 201 and echoes \<open>r\<close>, and the listing read
  after it holds exactly one record under that key, equal to \<open>r\<close> in every field
  (\<^verbatim>\<open>created_at\<close> is not part of the nested form).
\<close>

theorem round_trip:
  assumes "valid_record r" and "id' r = Some x" and "\<not> has_id d x"
  shows "(\<exists>f. flatten r (id' r) now = Inr f \<and> unflatten f = r) \<and>
         snd (post_motorcycles now d r) = \<lparr>status = 201, payload = Echo r\<rparr> \<and>
         filter (\<lambda>b. id' b = Some x) (formattedBikes (fst (post_motorcycles now d r))) = [r]"
proof -
  obtain f where f: "flatten r (id' r) now = Inr f"
      "post_motorcycles now d r = (d @ [f], \<lparr>status = 201, payload = Echo r\<rparr>)"
    using valid_create[OF assms] by blast
  have "col_id f = Some x"
    using f(1) assms(2) by (auto simp: flatten_def split: option.splits)
  then have "filter (\<lambda>r. col_id r = Some x) (d @ [f]) = [f]"
    using no_id_filter[OF assms(3)] by simp
  moreover have "unflatten f = r"
    using unflatten_flatten[OF f(1)] by simp
  ultimately show ?thesis
    using f by (simp add: filter_formattedBikes)
qed

theorem round_trip_witness:
  "valid_record bike1 \<and> \<not> has_id [] ''rx1'' \<and>
   filter (\<lambda>b. id' b = Some ''rx1'') (formattedBikes (fst (post_motorcycles 7 [] bike1))) =
     [bike1]"
proof -
  have v: "valid_record bike1" by (simp add: valid_record_def bike1_def)
  have i: "id' bike1 = Some ''rx1''" by (simp add: bike1_def)
  have h: "\<not> has_id [] ''rx1''" by (simp add: has_id_def)
  from round_trip[OF v i h, of 7] v h show ?thesis by simp
qed

subsection \<open>Create\<close>

text \<open>
  C2. When the table holds a row with key \<open>x\<close>, a create whose record has key \<open>x\<close>
  fails: the answer is the failure response (status 500) and the table, hence the row
  with key \<open>x\<close>, is exactly as before. When the record reaches the insert (it has a
  \<^verbatim>\<open>specs\<close> object and the three required columns), the failure is the violation of the
  primary key.
\<close>

theorem create_conflict:
  assumes "id' bike = Some x" and "has_id d x"
  shows "post_motorcycles now d bike =
           (d, \<lparr>status = 500, payload = Error ''Failed to add motorcycle''\<rparr>) \<and>
         (specs bike \<noteq> None \<and> name bike \<noteq> None \<and> category bike \<noteq> None \<and> year bike \<noteq> None \<longrightarrow>
            create_try now d bike = Inl (SqliteError SQLITE_CONSTRAINT_PRIMARYKEY))"
  using assms
  by (auto simp: post_motorcycles_def create_try_def flatten_def sql_insert_def
      split: option.splits sum.splits)

theorem create_conflict_witness:
  "has_id [row1] ''rx1'' \<and>
   post_motorcycles 9 [row1] bike1 =
     ([row1], \<lparr>status = 500, payload = Error ''Failed to add motorcycle''\<rparr>) \<and>
   create_try 9 [row1] bike1 = Inl (SqliteError SQLITE_CONSTRAINT_PRIMARYKEY)"
proof -
  have i: "id' bike1 = Some ''rx1''" by (simp add: bike1_def)
  have h: "has_id [row1] ''rx1''" by (simp add: has_id_row1)
  have "specs bike1 \<noteq> None \<and> name bike1 \<noteq> None \<and> category bike1 \<noteq> None \<and> year bike1 \<noteq> None"
    by (simp add: bike1_def)
  with create_conflict[OF i h, of 9] h show ?thesis by simp
qed

text \<open>
  C5, as the code has it. A create whose key is new, whose \<^verbatim>\<open>name\<close>, \<^verbatim>\<open>category\<close> and \<^verbatim>\<open>year\<close>
  are present and whose \<^verbatim>\<open>specs\<close> object is present succeeds, whatever sub-fields of
  \<^verbatim>\<open>specs\<close> are missing: the new row carries NULL in the column of each missing field.
\<close>

theorem create_optional_specs:
  assumes "id' bike = Some x" and "\<not> has_id d x"
    and "name bike \<noteq> None" and "category bike \<noteq> None" and "year bike \<noteq> None"
    and "specs bike = Some s"
  shows "post_motorcycles now d bike =
           (d @ [\<lparr>col_id = Some x, col_name = name bike, col_category = category bike,
                  col_year = year bike, col_description = description bike,
                  col_modifications = modifications bike, col_image = image' bike,
                  col_engine = engine s, col_power = power' s, col_torque = torque s,
                  col_weight = weight s, col_topSpeed = topSpeed s, col_created_at = now\<rparr>],
            \<lparr>status = 201, payload = Echo bike\<rparr>)"
  using assms
  by (auto simp: post_motorcycles_def create_try_def flatten_def sql_insert_def)

theorem create_optional_specs_witness:
  "fst (post_motorcycles 7 []
     (bike1\<lparr>specs := Some \<lparr>engine = None, power' = None, torque = None, weight = None,
        topSpeed = None\<rparr>\<rparr>)) =
     [row1\<lparr>col_engine := None, col_power := None, col_torque := None, col_weight := None,
        col_topSpeed := None\<rparr>] \<and>
   status (snd (post_motorcycles 7 []
     (bike1\<lparr>specs := Some \<lparr>engine = None, power' = None, torque = None, weight = None,
        topSpeed = None\<rparr>\<rparr>))) = 201"
proof -
  let ?s = "\<lparr>engine = None, power' = None, torque = None, weight = None, topSpeed = None\<rparr>"
  let ?b = "bike1\<lparr>specs := Some ?s\<rparr>"
  have h: "\<not> has_id [] ''rx1''" by (simp add: has_id_def)
  have "id' ?b = Some ''rx1''" "name ?b \<noteq> None" "category ?b \<noteq> None" "year ?b \<noteq> None"
      "specs ?b = Some ?s"
    by (simp_all add: bike1_def)
  from create_optional_specs[OF this(1) h this(2-5), of 7] show ?thesis
    by (simp add: bike1_def row1_def)
qed

text \<open>
  C5 as stated fails when the whole \<^verbatim>\<open>specs\<close> object is missing: the key and the required
  fields are there, yet the create answers 500 and stores nothing.
\<close>

theorem create_without_specs_counterexample:
  "id' (bike1\<lparr>specs := None\<rparr>) = Some ''rx1'' \<and> name (bike1\<lparr>specs := None\<rparr>) = Some ''RX King'' \<and>
   category (bike1\<lparr>specs := None\<rparr>) = Some ''Yamaha'' \<and> year (bike1\<lparr>specs := None\<rparr>) = Some 2004 \<and>
   post_motorcycles 7 [] (bike1\<lparr>specs := None\<rparr>) =
     ([], \<lparr>status = 500, payload = Error ''Failed to add motorcycle''\<rparr>)"
  by (simp add: post_motorcycles_def create_try_def flatten_def bike1_def)

subsection \<open>Update\<close>

text \<open>
  C3, as the code has it. An update under a key that no row has changes nothing and is
  not reported as missing: the answer is 200 with the record echoed, as for an update
  that found its row (500 when the record has no \<^verbatim>\<open>specs\<close> object).
\<close>

theorem update_missing_id:
  assumes "\<not> has_id d x"
  shows "put_motorcycles d x bike =
           (d, if specs bike = None
               then \<lparr>status = 500, payload = Error ''Failed to update motorcycle''\<rparr>
               else \<lparr>status = 200, payload = Echo bike\<rparr>)"
proof -
  have "map (\<lambda>r. if col_id r = Some x then set_columns v r else r) d = d" for v
    using assms by (auto simp: has_id_def map_idI)
  with assms show ?thesis
    by (auto simp: put_motorcycles_def update_try_def flatten_def sql_update_def
        split: option.splits)
qed

theorem update_missing_id_witness:
  "\<not> has_id [row1] ''zz9'' \<and>
   put_motorcycles [row1] ''zz9'' bike2 = ([row1], \<lparr>status = 200, payload = Echo bike2\<rparr>)"
proof -
  have h: "\<not> has_id [row1] ''zz9''" by (simp add: has_id_row1)
  from update_missing_id[OF h, of bike2] h show ?thesis by (simp add: bike2_def)
qed

text \<open>
  C3 as stated fails: on the empty table the update of key \<^verbatim>\<open>rx1\<close> answers 200, the very
  response it gives when the row exists.
\<close>

theorem update_not_found_counterexample:
  "\<not> has_id [] ''rx1'' \<and> has_id [row1] ''rx1'' \<and>
   status (snd (put_motorcycles [] ''rx1'' bike1)) = 200 \<and>
   snd (put_motorcycles [] ''rx1'' bike1) = snd (put_motorcycles [row1] ''rx1'' bike1)"
  by (simp add: has_id_row1 put_motorcycles_def update_try_def flatten_def sql_update_def
      bike1_def has_id_def row1_def)

text \<open>
  C6. After a create of \<open>r1\<close> under key \<open>x\<close> that answered 201 and an update of \<open>x\<close> with
  \<open>r2\<close> that answered 200, the listing holds exactly one record under \<open>x\<close>, and it is
  \<open>r2\<close> with the key \<open>x\<close>: every field is the one of \<open>r2\<close>, null where \<open>r2\<close> has none, and
  nothing of \<open>r1\<close> is left.
\<close>

theorem full_replacement:
  assumes "id' r1 = Some x"
    and "post_motorcycles now d r1 = (d1, res1)" and "status res1 = 201"
    and "put_motorcycles d1 x r2 = (d2, res2)" and "status res2 = 200"
  shows "filter (\<lambda>b. id' b = Some x) (formattedBikes d2) = [r2\<lparr>id' := Some x\<rparr>]"
proof -
  obtain f where f: "flatten r1 (id' r1) now = Inr f" "d1 = d @ [f]" "\<not> has_id d x"
    using post_201[OF assms(2,3)] assms(1) by auto
  have idf: "col_id f = Some x" using f(1) assms(1) by (auto simp: flatten_def split: option.splits)
  obtain v where v: "flatten r2 None 0 = Inr v"
      "d2 = map (\<lambda>r. if col_id r = Some x then set_columns v r else r) d1"
    using put_200[OF assms(4,5)] by blast
  have "filter (\<lambda>r. col_id r = Some x) d1 = [f]"
    using f(2,3) idf by (simp add: no_id_filter)
  then have "filter (\<lambda>r. col_id r = Some x) d2 = [set_columns v f]"
    by (simp add: v(2) filter_same_update)
  moreover have "unflatten (set_columns v f) = r2\<lparr>id' := Some x\<rparr>"
    using unflatten_set_columns[OF v(1)] idf by simp
  ultimately show ?thesis by (simp add: filter_formattedBikes)
qed

theorem full_replacement_witness:
  "status (snd (post_motorcycles 7 [] bike1)) = 201 \<and>
   status (snd (put_motorcycles (fst (post_motorcycles 7 [] bike1)) ''rx1'' bike2)) = 200 \<and>
   filter (\<lambda>b. id' b = Some ''rx1'')
     (formattedBikes (fst (put_motorcycles (fst (post_motorcycles 7 [] bike1)) ''rx1'' bike2))) =
     [bike2\<lparr>id' := Some ''rx1''\<rparr>]"
proof -
  have i: "id' bike1 = Some ''rx1''" by (simp add: bike1_def)
  have p: "post_motorcycles 7 [] bike1 = ([row1], \<lparr>status = 201, payload = Echo bike1\<rparr>)"
    by (rule post_bike1)
  have s1: "status \<lparr>status = 201, payload = Echo bike1\<rparr> = 201" by simp
  have u: "put_motorcycles [row1] ''rx1'' bike2 =
      (fst (put_motorcycles [row1] ''rx1'' bike2), snd (put_motorcycles [row1] ''rx1'' bike2))"
    by simp
  have s2: "status (snd (put_motorcycles [row1] ''rx1'' bike2)) = 200"
    by (simp add: put_motorcycles_def update_try_def flatten_def sql_update_def bike2_def)
  from full_replacement[OF i p s1 u s2] s2 show ?thesis by (simp add: p)
qed

text \<open>
  C7. Whatever an update does, the keys and the timestamps of the table are the same
  after it, row by row, and every row under another key is untouched: only the eleven
  other columns of the rows under the given key are written.
\<close>

theorem update_frame:
  "map col_id (fst (put_motorcycles d x bike)) = map col_id d \<and>
   map col_created_at (fst (put_motorcycles d x bike)) = map col_created_at d \<and>
   filter (\<lambda>r. col_id r \<noteq> Some x) (fst (put_motorcycles d x bike)) =
     filter (\<lambda>r. col_id r \<noteq> Some x) d"
  using put_cases[of d x bike]
  by (auto simp: map_col_id_update map_created_at_update filter_other_update)

theorem update_frame_witness:
  "map col_id (fst (put_motorcycles [row1] ''rx1'' bike2)) = [Some ''rx1''] \<and>
   map col_created_at (fst (put_motorcycles [row1] ''rx1'' bike2)) = [7]"
  using update_frame[of "[row1]" "''rx1''" bike2] by (simp add: row1_def)

subsection \<open>Delete\<close>

text \<open>
  C8. A delete under a key that no row has answers 404 and leaves the table as it is; a
  delete under a key that a row has answers 204 and removes the rows under that key, no
  other. In a table with unique keys that is exactly the one row, and the table is one
  row shorter.
\<close>

theorem delete_outcomes:
  "(\<not> has_id d x \<longrightarrow>
      delete_motorcycles d x = (d, \<lparr>status = 404, payload = Error ''Motorcycle not found''\<rparr>)) \<and>
   (has_id d x \<longrightarrow>
      snd (delete_motorcycles d x) = \<lparr>status = 204, payload = NoContent\<rparr> \<and>
      fst (delete_motorcycles d x) = filter (\<lambda>r. col_id r \<noteq> Some x) d \<and>
      \<not> has_id (fst (delete_motorcycles d x)) x) \<and>
   (unique_ids d \<longrightarrow> (\<forall>r \<in> set d. col_id r = Some x \<longrightarrow>
      fst (delete_motorcycles d x) = remove1 r d \<and>
      Suc (length (fst (delete_motorcycles d x))) = length d))"
proof (intro conjI impI ballI)
  assume "\<not> has_id d x"
  then show "delete_motorcycles d x = (d, \<lparr>status = 404, payload = Error ''Motorcycle not found''\<rparr>)"
    by (simp add: delete_cases filter_absent)
next
  assume "has_id d x"
  then show "snd (delete_motorcycles d x) = \<lparr>status = 204, payload = NoContent\<rparr>"
    by (simp add: delete_cases)
next
  show "fst (delete_motorcycles d x) = filter (\<lambda>r. col_id r \<noteq> Some x) d"
    by (simp add: delete_cases)
next
  show "\<not> has_id (fst (delete_motorcycles d x)) x"
    by (simp add: delete_cases has_id_def)
next
  fix r assume a: "unique_ids d" "r \<in> set d" "col_id r = Some x"
  then show "fst (delete_motorcycles d x) = remove1 r d"
    by (simp add: delete_cases filter_remove1)
next
  fix r assume a: "unique_ids d" "r \<in> set d" "col_id r = Some x"
  then have "fst (delete_motorcycles d x) = remove1 r d"
    by (simp add: delete_cases filter_remove1)
  moreover have "0 < length d" using a(2) by (rule length_pos_if_in_set)
  ultimately show "Suc (length (fst (delete_motorcycles d x))) = length d"
    using a(2) by (simp add: length_remove1)
qed

theorem delete_outcomes_witness:
  "\<not> has_id [row1] ''zz9'' \<and>
   delete_motorcycles [row1] ''zz9'' =
     ([row1], \<lparr>status = 404, payload = Error ''Motorcycle not found''\<rparr>) \<and>
   has_id [row1] ''rx1'' \<and> unique_ids [row1] \<and> row1 \<in> set [row1] \<and>
   delete_motorcycles [row1] ''rx1'' = ([], \<lparr>status = 204, payload = NoContent\<rparr>)"
proof -
  have a: "\<not> has_id [row1] ''zz9''" and p: "has_id [row1] ''rx1''"
    by (simp_all add: has_id_row1)
  have u: "unique_ids [row1]" by (simp add: unique_ids_def)
  have k: "col_id row1 = Some ''rx1''" by (simp add: row1_def)
  from delete_outcomes[of "[row1]" "''zz9''"] delete_outcomes[of "[row1]" "''rx1''"] a p u k
  show ?thesis by (simp add: prod_eq_iff)
qed

text \<open>
  C9. The two delete routes leave the same table behind, and each answers 404 exactly when
  no row has the key and its success status (200 for the POST route, 204 for the DELETE
  route) exactly when one has.
\<close>

theorem delete_routes_agree:
  "fst (post_motorcycles_delete d x) = fst (delete_motorcycles d x) \<and>
   (status (snd (post_motorcycles_delete d x)) = 404) = (\<not> has_id d x) \<and>
   (status (snd (delete_motorcycles d x)) = 404) = (\<not> has_id d x) \<and>
   (status (snd (post_motorcycles_delete d x)) = 200) = has_id d x \<and>
   (status (snd (delete_motorcycles d x)) = 204) = has_id d x"
  by (simp add: delete_cases post_delete_cases)

theorem delete_routes_agree_witness:
  "fst (post_motorcycles_delete [row1] ''rx1'') = [] \<and>
   fst (delete_motorcycles [row1] ''rx1'') = [] \<and>
   status (snd (post_motorcycles_delete [row1] ''rx1'')) = 200 \<and>
   status (snd (delete_motorcycles [row1] ''rx1'')) = 204 \<and>
   status (snd (post_motorcycles_delete [row1] ''zz9'')) = 404 \<and>
   status (snd (delete_motorcycles [row1] ''zz9'')) = 404"
  using delete_routes_agree[of "[row1]" "''rx1''"] delete_routes_agree[of "[row1]" "''zz9''"]
  by (simp add: has_id_row1 delete_cases col_id_row1)

section \<open>Properties of the image ingestion\<close>

subsection \<open>Helper lemmas\<close>

text \<open>
  The handler on two non-empty strings: the write decides alone between 200 and 500; the
  text of the image only determines the bytes written.
\<close>

lemma post_upload_result:
  assumes "i \<noteq> []" and "f \<noteq> []"
  shows "post_upload e fs (Some i) (Some f) =
           (if write_fails e
            then (fs, \<lparr>status = 500, payload = Error ''Failed to save uploaded image''\<rparr>)
            else (fs(newFileName e f \<mapsto> Buffer_from_base64 (strip_header i)),
                  \<lparr>status = 200, payload = ImageUrl (''/uploads/'' @ newFileName e f)\<rparr>))"
  using assms by (simp add: post_upload_def upload_try_def writeFileSync_def)

lemma length_sextet_bytes: "length (sextet_bytes xs) = length xs * 3 div 4"
  by (induction xs rule: sextet_bytes.induct) simp_all

lemma unbase64_A: "unbase64 CHR ''A'' = Some 0"
  by (simp add: unbase64_def)

lemma sextets_replicate_A: "List.map_filter unbase64 (replicate n CHR ''A'') = replicate n 0"
  by (induction n) (simp_all add: unbase64_A)

lemma strip_header_A: "strip_header (CHR ''A'' # xs) = CHR ''A'' # xs"
  by (simp add: strip_header_def)

lemma strip_header_replicate_A: "strip_header (replicate n CHR ''A'') = replicate n CHR ''A''"
  by (cases n) (simp_all add: strip_header_A, simp add: strip_header_def)

text \<open>The text \<^verbatim>\<open>AAA...A\<close> of \<open>n\<close> characters is the base64 form of \<open>3n div 4\<close> zero bytes.\<close>

lemma payload_size_A:
  "length (Buffer_from_base64 (strip_header (replicate n CHR ''A''))) = n * 3 div 4"
  by (simp add: strip_header_replicate_A Buffer_from_base64_def sextets_replicate_A
      length_sextet_bytes)




subsection \<open>Malformed base64\<close>




subsection \<open>Size of an upload\<close>

text \<open>
  C4, as the code has it. The route refuses a request by its size only when the JSON text
  of the request is longer than 10 MiB, with status 413; every request up to that size
  with two non-empty fields is saved and answered with 200 when the write goes through,
  whatever the size of the decoded image. The limit of 5 MiB is the client's: it sends a
  chosen file only when the file has at most \<open>5 * 1024 * 1024\<close> bytes.
\<close>

theorem upload_size_gate:
  assumes "i \<noteq> []" and "f \<noteq> []" and "\<not> write_fails e"
  shows "(n \<le> 10 * 1024 * 1024 \<longrightarrow>
            api_upload e fs n (Some i) (Some f) =
              (fs(newFileName e f \<mapsto> Buffer_from_base64 (strip_header i)),
               \<lparr>status = 200, payload = ImageUrl (''/uploads/'' @ newFileName e f)\<rparr>)) \<and>
         (10 * 1024 * 1024 < n \<longrightarrow>
            api_upload e fs n (Some i) (Some f) =
              (fs, \<lparr>status = 413, payload = Error ''request entity too large''\<rparr>)) \<and>
         (client_sends_file file_size = (file_size \<le> 5 * 1024 * 1024))"
  using assms
  by (auto simp: api_upload_def json_limit_def post_upload_result client_sends_file_def)

text \<open>
  An image of exactly 5 MiB (6990507 characters of base64, in a request of 6990541
  bytes) is accepted; the same image in a request of 10 MiB and one byte is refused.
\<close>

theorem upload_size_gate_witness:
  "length (Buffer_from_base64 (strip_header (replicate 6990507 CHR ''A''))) = 5 * 1024 * 1024 \<and>
   status (snd (api_upload env0 Map.empty 6990541 (Some (replicate 6990507 CHR ''A''))
     (Some ''bike.png''))) = 200 \<and>
   status (snd (api_upload env0 Map.empty 10485761 (Some (replicate 6990507 CHR ''A''))
     (Some ''bike.png''))) = 413"
proof -
  have i: "replicate 6990507 CHR ''A'' \<noteq> []" and f: "''bike.png'' \<noteq> []" by simp_all
  have w: "\<not> write_fails env0" by (simp add: env0_def)
  from upload_size_gate[OF i f w, of 6990541 Map.empty]
       upload_size_gate[OF i f w, of 10485761 Map.empty]
  show ?thesis by (simp add: payload_size_A)
qed

text \<open>
  C4 as stated fails: an image of 5 MiB and one byte (6990508 characters of base64, in a
  request of 6990542 bytes), which the client would not send, is accepted by the route.
\<close>

theorem upload_over_ceiling_counterexample:
  "length (Buffer_from_base64 (strip_header (replicate 6990508 CHR ''A''))) = 5 * 1024 * 1024 + 1 \<and>
   \<not> client_sends_file (5 * 1024 * 1024 + 1) \<and>
   status (snd (api_upload env0 Map.empty 6990542 (Some (replicate 6990508 CHR ''A''))
     (Some ''bike.png''))) = 200"
proof -
  have i: "replicate 6990508 CHR ''A'' \<noteq> []" and f: "''bike.png'' \<noteq> []" by simp_all
  have w: "\<not> write_fails env0" by (simp add: env0_def)
  show ?thesis
    by (simp add: payload_size_A api_upload_def json_limit_def post_upload_result[OF i f] w
        client_sends_file_def)
qed

end
